theory Spec2Isabelle
  imports Complex_Main
begin

section \<open>The rollout buffer of deeprlyb (\<^verbatim>\<open>src/deeprlyb/utils/buffer.py\<close>)\<close>

text \<open>
  The class \<^verbatim>\<open>RolloutBuffer\<close> is embedded with its floats read as real numbers
  (exact arithmetic) and its numpy arrays and torch tensors read as lists of reals.
  Every exception of the Python code is a value of the type \<open>error\<close>. The rounding
  of 64-bit floats is not modelled: a statement about the returns is a statement in
  exact arithmetic.

  A division by zero on numpy floats does not raise: it yields \<^verbatim>\<open>nan\<close> or an
  infinity under a RuntimeWarning, and the code stores that result. The returns and the
  advantages, the only numbers of the buffer that come out of a division, are therefore
  of the type \<open>float64\<close>: a real number, or \<open>NonFinite\<close> for \<^verbatim>\<open>nan\<close> and the
  infinities. Every addition, subtraction and division the code applies to a
  non-finite return, the other operand being finite, is non-finite again.
\<close>

datatype error =
    ValueError string
  | IndexError
  | TypeError
  | RuntimeError
  | ZeroDivisionError

datatype float64 = Finite real | NonFinite

subsection \<open>Python and numpy primitives\<close>

text \<open>\<^verbatim>\<open>np.zeros(k)\<close>.\<close>

definition zeros :: "nat \<Rightarrow> real list" where
  "zeros k = replicate k 0"

text \<open>\<^verbatim>\<open>xs[a:b]\<close> for bounds that are not negative.\<close>

definition slice :: "'a list \<Rightarrow> nat \<Rightarrow> nat \<Rightarrow> 'a list" where
  "slice xs a b = take (b - a) (drop a xs)"

text \<open>
  The position a slice bound \<open>i\<close> denotes in a sequence of length \<open>l\<close>: a negative
  bound counts from the end, and every bound is clamped to \<open>0..l\<close>.
\<close>

definition slice_index :: "int \<Rightarrow> nat \<Rightarrow> nat" where
  "slice_index i l = (if i < 0 then nat (int l + i) else min (nat i) l)"

text \<open>\<^verbatim>\<open>xs[i:]\<close> and \<^verbatim>\<open>xs[:i]\<close> for any integer bound.\<close>

definition slice_from :: "'a list \<Rightarrow> int \<Rightarrow> 'a list" where
  "slice_from xs i = drop (slice_index i (length xs)) xs"

definition slice_to :: "'a list \<Rightarrow> int \<Rightarrow> 'a list" where
  "slice_to xs i = take (slice_index i (length xs)) xs"

text \<open>\<^verbatim>\<open>xs[i] = v\<close> for an index that is not negative: IndexError out of range.\<close>

definition setitem :: "'a list \<Rightarrow> nat \<Rightarrow> 'a \<Rightarrow> error + 'a list" where
  "setitem xs i v = (if i < length xs then Inr (xs[i := v]) else Inl IndexError)"

text \<open>
  \<^verbatim>\<open>xs[:i] = src\<close> on one-dimensional numpy arrays: the source must have the
  length of the target slice, or length one (it is then broadcast); otherwise numpy
  raises ValueError.
\<close>

definition assign_prefix :: "real list \<Rightarrow> int \<Rightarrow> real list \<Rightarrow> error + real list" where
  "assign_prefix xs i src =
     (let t = slice_index i (length xs) in
      if length src = t then Inr (src @ drop t xs)
      else if length src = 1 then Inr (replicate t (hd src) @ drop t xs)
      else Inl (ValueError ''could not broadcast input array''))"

text \<open>
  The builtin \<^verbatim>\<open>max\<close> over a sequence: ValueError on an empty one (the wording
  of the message depends on the interpreter's version).
\<close>

definition py_max :: "real list \<Rightarrow> error + real" where
  "py_max xs =
     (case xs of
        [] \<Rightarrow> Inl (ValueError ''max() arg is an empty sequence'')
      | x # ys \<Rightarrow> Inr (fold max ys x))"

text \<open>A return minus a stored value.\<close>

definition fsub :: "float64 \<Rightarrow> real \<Rightarrow> float64" where
  "fsub x y = (case x of Finite r \<Rightarrow> Finite (r - y) | NonFinite \<Rightarrow> NonFinite)"

text \<open>
  \<^verbatim>\<open>torch.sub(a, b)\<close> on one-dimensional tensors: elementwise on equal lengths, a
  tensor of length one is broadcast, any other pair of lengths raises RuntimeError.
\<close>

definition torch_sub :: "float64 list \<Rightarrow> real list \<Rightarrow> error + float64 list" where
  "torch_sub a b =
     (if length a = length b then Inr (map2 fsub a b)
      else if length a = 1 then Inr (map (\<lambda>y. fsub (hd a) y) b)
      else if length b = 1 then Inr (map (\<lambda>x. fsub x (hd b)) a)
      else Inl RuntimeError)"

text \<open>A list comprehension whose elements may raise: the first error ends it.\<close>

fun collect :: "(error + 'a) list \<Rightarrow> error + 'a list" where
  "collect [] = Inr []"
| "collect (Inl e # rs) = Inl e"
| "collect (Inr x # rs) = (case collect rs of Inl e \<Rightarrow> Inl e | Inr xs \<Rightarrow> Inr (x # xs))"

subsection \<open>The buffer\<close>

text \<open>
  The attributes of a \<^verbatim>\<open>RolloutBuffer\<close>. \<open>values_col\<close> is \<^verbatim>\<open>self.values\<close>,
  \<open>returns\<close> is \<^verbatim>\<open>self._returns\<close> and \<open>len\<close> is \<^verbatim>\<open>self.__len__\<close>.
  \<open>n_steps\<close> and \<open>buffer_size\<close> are read-only properties that the constructor has
  checked to be at least 1, so they are natural numbers here; \<open>None\<close> is Python's None.
\<close>

record buffer =
  setting :: string
  n_steps :: nat
  buffer_size :: nat
  gamma :: real
  rewards :: "real list"
  dones :: "real list"
  KL_divergences :: "real list"
  values_col :: "real list"
  log_probs :: "real list"
  entropies :: "real list"
  advantages :: "float64 list option"
  returns :: "float64 list option"
  len :: nat

text \<open>The property \<^verbatim>\<open>done\<close>: \<^verbatim>\<open>max(self.dones) == 1\<close>.\<close>

definition done_prop :: "buffer \<Rightarrow> error + bool" where
  "done_prop b = (case py_max (dones b) of Inl e \<Rightarrow> Inl e | Inr m \<Rightarrow> Inr (m = 1))"

text \<open>The property \<^verbatim>\<open>full\<close>; \<^verbatim>\<open>or\<close> evaluates \<^verbatim>\<open>self.done\<close> only when the length test fails.\<close>

definition full :: "buffer \<Rightarrow> error + bool" where
  "full b =
     (if int (len b) \<ge> int (buffer_size b) + int (n_steps b) - 1 then Inr True
      else case done_prop b of
             Inl e \<Rightarrow> Inl e
           | Inr d \<Rightarrow> (if d then Inr True else Inr False))"

definition reset :: "buffer \<Rightarrow> buffer" where
  "reset b =
     (let buffer_size' = nat (int (buffer_size b) + int (n_steps b) - 1) in
      b\<lparr>rewards := zeros buffer_size',
        dones := zeros buffer_size',
        KL_divergences := zeros buffer_size',
        values_col := zeros buffer_size',
        log_probs := zeros buffer_size',
        entropies := zeros buffer_size',
        advantages := None,
        returns := None,
        len := 0\<rparr>)"

text \<open>
  The constructor. Before \<^verbatim>\<open>self.reset()\<close> the columns do not exist yet; the
  record that \<open>reset\<close> receives holds empty ones.
\<close>

definition init :: "int \<Rightarrow> real \<Rightarrow> int \<Rightarrow> string \<Rightarrow> error + buffer" where
  "init buffer_size' gamma' n_steps' setting' =
     (if buffer_size' < 1 then Inl (ValueError ''Buffer size must be positive'')
      else if \<not> (0 \<le> gamma' \<and> gamma' \<le> 1) then Inl (ValueError ''Gamma must be between 0 and 1'')
      else if n_steps' < 1 then Inl (ValueError ''Number of steps must be positive'')
      else Inr (reset \<lparr>setting = setting', n_steps = nat n_steps', buffer_size = nat buffer_size',
                       gamma = gamma', rewards = [], dones = [], KL_divergences = [],
                       values_col = [], log_probs = [], entropies = [],
                       advantages = None, returns = None, len = 0\<rparr>))"

text \<open>
  \<^verbatim>\<open>clean\<close>. The assignment into \<^verbatim>\<open>self.rewards[: self.n_steps - 1]\<close> can raise;
  the new zero array is then already in place and the other attributes are untouched.
\<close>

definition clean :: "buffer \<Rightarrow> error option \<times> buffer" where
  "clean b =
     (let buffer_size' = nat (int (buffer_size b) + int (n_steps b) - 1);
          old_rewards = slice_from (rewards b) (- int (n_steps b) + 1);
          b1 = b\<lparr>rewards := zeros buffer_size'\<rparr>
      in case assign_prefix (rewards b1) (int (n_steps b) - 1) old_rewards of
           Inl e \<Rightarrow> (Some e, b1)
         | Inr rs \<Rightarrow>
             (None, b1\<lparr>rewards := rs,
                       dones := zeros buffer_size',
                       KL_divergences := zeros buffer_size',
                       values_col := zeros buffer_size',
                       log_probs := zeros buffer_size',
                       entropies := zeros buffer_size',
                       advantages := None,
                       returns := None,
                       len := nat (int (n_steps b) - 1)\<rparr>))"

text \<open>
  \<^verbatim>\<open>add\<close>. The six stores happen in the order of the source; one that raises
  IndexError leaves the earlier ones done.
\<close>

definition add ::
  "real \<Rightarrow> bool \<Rightarrow> real \<Rightarrow> real \<Rightarrow> real \<Rightarrow> real \<Rightarrow> buffer \<Rightarrow> error option \<times> buffer" where
  "add reward done value log_prob entropy KL_divergence b =
     (case full b of
        Inl e \<Rightarrow> (Some e, b)
      | Inr True \<Rightarrow> (Some (ValueError ''Buffer is already full, cannot add anymore''), b)
      | Inr False \<Rightarrow>
     (case setitem (dones b) (len b) (if done then 1 else 0) of
        Inl e \<Rightarrow> (Some e, b)
      | Inr ds \<Rightarrow> let b1 = b\<lparr>dones := ds\<rparr> in
     (case setitem (values_col b1) (len b1) value of
        Inl e \<Rightarrow> (Some e, b1)
      | Inr vs \<Rightarrow> let b2 = b1\<lparr>values_col := vs\<rparr> in
     (case setitem (log_probs b2) (len b2) log_prob of
        Inl e \<Rightarrow> (Some e, b2)
      | Inr ls \<Rightarrow> let b3 = b2\<lparr>log_probs := ls\<rparr> in
     (case setitem (entropies b3) (len b3) entropy of
        Inl e \<Rightarrow> (Some e, b3)
      | Inr es \<Rightarrow> let b4 = b3\<lparr>entropies := es\<rparr> in
     (case setitem (KL_divergences b4) (len b4) KL_divergence of
        Inl e \<Rightarrow> (Some e, b4)
      | Inr ks \<Rightarrow> let b5 = b4\<lparr>KL_divergences := ks\<rparr> in
     (case setitem (rewards b5) (len b5) reward of
        Inl e \<Rightarrow> (Some e, b5)
      | Inr rs \<Rightarrow> (None, b5\<lparr>rewards := rs, len := len b5 + 1\<rparr>))))))))"

subsection \<open>Returns\<close>

definition compute_n_step_return :: "real list \<Rightarrow> real \<Rightarrow> real" where
  "compute_n_step_return rewards' gamma' =
     fold (\<lambda>reward n_step_return. reward + gamma' * n_step_return) (rev rewards') 0"

text \<open>The loop state of \<^verbatim>\<open>compute_MC_returns\<close> is the pair of \<^verbatim>\<open>cum_return\<close> and \<^verbatim>\<open>MC_returns\<close>.\<close>

definition compute_MC_returns :: "real list \<Rightarrow> real \<Rightarrow> real list" where
  "compute_MC_returns rewards' gamma' =
     rev (snd (fold (\<lambda>reward (cum_return, MC_returns).
                       (reward + gamma' * cum_return, MC_returns @ [reward + gamma' * cum_return]))
                    (rev rewards') (0, [])))"

text \<open>
  \<^verbatim>\<open>compute_next_return\<close>. \<^verbatim>\<open>gamma**n_steps\<close> is \<open>power_int\<close>, the caller
  passing \<^verbatim>\<open>n_steps - 1\<close>; on the Python float \<^verbatim>\<open>gamma = 0.0\<close> a negative power
  raises ZeroDivisionError. The numerator is a numpy float, so the division by
  \<^verbatim>\<open>gamma = 0\<close> does not raise: its result is \<^verbatim>\<open>nan\<close> (for \<^verbatim>\<open>0/0\<close>) or an
  infinity, and so is the sum.
\<close>

definition compute_next_return ::
  "float64 \<Rightarrow> real \<Rightarrow> real \<Rightarrow> real \<Rightarrow> int \<Rightarrow> error + float64" where
  "compute_next_return last_return R_0 R_N gamma' n_steps' =
     (if gamma' = 0 \<and> n_steps' < 0 then Inl ZeroDivisionError
      else case last_return of
             NonFinite \<Rightarrow> Inr NonFinite
           | Finite l \<Rightarrow>
               (if gamma' = 0 then Inr NonFinite
                else Inr (Finite (((l - R_0) / gamma') + (power_int gamma' n_steps' * R_N)))))"

definition compute_all_n_step_returns :: "real list \<Rightarrow> real \<Rightarrow> nat \<Rightarrow> nat \<Rightarrow> real list" where
  "compute_all_n_step_returns rewards' gamma' buffer_size' n_steps' =
     map (\<lambda>j. compute_n_step_return
                (slice rewards' j (min (j + n_steps') (length rewards'))) gamma')
         [0..<buffer_size']"

text \<open>
  The loop of \<^verbatim>\<open>compute_returns\<close>: \<open>k\<close> iterations are left, \<open>i\<close> is the loop
  variable. The arguments of \<^verbatim>\<open>compute_next_return\<close> are read first, and a read out
  of range raises IndexError.
\<close>

fun returns_loop ::
  "real list \<Rightarrow> real \<Rightarrow> nat \<Rightarrow> nat \<Rightarrow> nat \<Rightarrow> float64 list \<Rightarrow> error + float64 list" where
  "returns_loop rewards' gamma' n_steps' 0 i rets = Inr rets"
| "returns_loop rewards' gamma' n_steps' (Suc k) i rets =
     (if length rets \<le> i \<or> length rewards' \<le> i \<or> length rewards' \<le> i + n_steps'
      then Inl IndexError
      else case compute_next_return (rets ! i) (rewards' ! i) (rewards' ! (i + n_steps'))
                  gamma' (int n_steps' - 1) of
             Inl e \<Rightarrow> Inl e
           | Inr new_return \<Rightarrow> returns_loop rewards' gamma' n_steps' k (Suc i) (rets @ [new_return]))"

definition compute_returns :: "real list \<Rightarrow> real \<Rightarrow> nat \<Rightarrow> nat \<Rightarrow> error + float64 list" where
  "compute_returns rewards' gamma' buffer_size' n_steps' =
     (let G_0 = Finite (compute_n_step_return (slice rewards' 0 (0 + n_steps')) gamma')
      in returns_loop rewards' gamma' n_steps' (buffer_size' - 1) 0 [G_0])"

subsection \<open>Advantages\<close>

text \<open>
  One element of the list comprehension of \<^verbatim>\<open>compute_advantages\<close>.
  \<open>next_values\<close> holds \<open>None\<close> where \<^verbatim>\<open>last_val\<close> was None: arithmetic on it raises TypeError.
\<close>

definition advantage_at ::
  "float64 list \<Rightarrow> real list \<Rightarrow> real list \<Rightarrow> real \<Rightarrow> real option list \<Rightarrow> nat \<Rightarrow> nat
   \<Rightarrow> error + float64" where
  "advantage_at rets vals dones' gamma' next_values n_steps' i =
     (if length rets \<le> i \<or> length dones' \<le> i \<or> length next_values \<le> i then Inl IndexError
      else case next_values ! i of
             None \<Rightarrow> Inl TypeError
           | Some nv \<Rightarrow>
               (if length vals \<le> i then Inl IndexError
                else case rets ! i of
                       NonFinite \<Rightarrow> Inr NonFinite
                     | Finite r \<Rightarrow>
                         Inr (Finite (r + (1 - dones' ! i) * (gamma' ^ n_steps') * nv - vals ! i))))"

definition compute_advantages ::
  "float64 list \<Rightarrow> real list \<Rightarrow> real list \<Rightarrow> real \<Rightarrow> real option \<Rightarrow> nat
   \<Rightarrow> error + float64 list" where
  "compute_advantages rets vals dones' gamma' last_val n_steps' =
     (let next_values = map Some (drop n_steps' vals) @ [last_val]
      in if n_steps' > 0
         then collect (map (advantage_at rets vals dones' gamma' next_values n_steps')
                           [0..<nat (int (length vals) - int n_steps' + 1)])
         else Inl (ValueError ''Invalid steps number : 0''))"

definition compute_MC_advantages :: "float64 list \<Rightarrow> real list \<Rightarrow> error + float64 list" where
  "compute_MC_advantages rets vals = torch_sub rets vals"

text \<open>
  \<^verbatim>\<open>update_advantages\<close>. An exception while the returns are computed leaves the
  buffer as it was; one while the advantages are computed leaves \<^verbatim>\<open>self._returns\<close> set.
  The Monte-Carlo returns and the direct n-step returns involve no division: they are finite.
\<close>

definition update_advantages :: "real option \<Rightarrow> bool \<Rightarrow> bool \<Rightarrow> buffer \<Rightarrow> error option \<times> buffer" where
  "update_advantages last_val fast MC b =
     (case (if n_steps b > 2 \<and> fast
            then compute_returns (rewards b) (gamma b) (buffer_size b) (n_steps b)
            else if MC
            then Inr (map Finite (compute_MC_returns (rewards b) (gamma b)))
            else Inr (map Finite (compute_all_n_step_returns (rewards b) (gamma b)
                                    (buffer_size b) (n_steps b)))) of
        Inl e \<Rightarrow> (Some e, b)
      | Inr rets \<Rightarrow>
          (let b1 = b\<lparr>returns := Some rets\<rparr> in
           if MC
           then (case compute_MC_advantages rets (values_col b1) of
                   Inl e \<Rightarrow> (Some e, b1)
                 | Inr adv \<Rightarrow>
                     (None, b1\<lparr>advantages := Some (slice_to adv (int (len b1))),
                               log_probs := slice_to (log_probs b1) (int (len b1))\<rparr>))
           else (case compute_advantages rets (values_col b1) (dones b1) (gamma b1) last_val (n_steps b1) of
                   Inl e \<Rightarrow> (Some e, b1)
                 | Inr adv \<Rightarrow> (None, b1\<lparr>advantages := Some adv\<rparr>))))"

definition clear :: "buffer \<Rightarrow> buffer" where
  "clear b =
     b\<lparr>rewards := slice_from (rewards b) (int (buffer_size b)),
       dones := slice_from (dones b) (int (buffer_size b)),
       KL_divergences := slice_from (KL_divergences b) (int (buffer_size b)),
       values_col := slice_from (values_col b) (int (buffer_size b)),
       log_probs := slice_from (log_probs b) (int (buffer_size b)),
       entropies := slice_from (entropies b) (int (buffer_size b))\<rparr>"

text \<open>
  The buffer states a caller can reach: a constructed buffer, and the state any method
  leaves behind, whether it returned or raised.
\<close>

inductive reachable :: "buffer \<Rightarrow> bool" where
  reach_init: "init B g n s = Inr b \<Longrightarrow> reachable b"
| reach_add: "reachable b \<Longrightarrow> reachable (snd (add r d v lp e kl b))"
| reach_reset: "reachable b \<Longrightarrow> reachable (reset b)"
| reach_clean: "reachable b \<Longrightarrow> reachable (snd (clean b))"
| reach_clear: "reachable b \<Longrightarrow> reachable (clear b)"
| reach_update: "reachable b \<Longrightarrow> reachable (snd (update_advantages lv fast MC b))"


subsection \<open>Auxiliary notions for the statements\<close>

text \<open>The constructor's failure: a ValueError, whatever its message.\<close>

definition is_InvalidConfig :: "error + buffer \<Rightarrow> bool" where
  "is_InvalidConfig r = (case r of Inl (ValueError msg) \<Rightarrow> True | _ \<Rightarrow> False)"

text \<open>
  What every reachable buffer satisfies: the stored done flags are 0 or 1, the cursor
  is within the capacity, and the two sizes are at least 1.
\<close>

definition flags_ok :: "buffer \<Rightarrow> bool" where
  "flags_ok b =
     (list_all (\<lambda>x. x = 0 \<or> x = 1) (dones b)
      \<and> int (len b) \<le> int (buffer_size b) + int (n_steps b) - 1
      \<and> 1 \<le> buffer_size b \<and> 1 \<le> n_steps b)"

text \<open>
  A training loop's use of the buffer: construct it, then \<^verbatim>\<open>add\<close> one step after
  the other; the first exception ends the run.
\<close>

type_synonym step = "real \<times> bool \<times> real \<times> real \<times> real \<times> real"

fun add_all :: "step list \<Rightarrow> buffer \<Rightarrow> error option \<times> buffer" where
  "add_all [] b = (None, b)"
| "add_all ((reward, done, value, log_prob, entropy, KL_divergence) # steps) b =
     (case add reward done value log_prob entropy KL_divergence b of
        (Some e, b') \<Rightarrow> (Some e, b')
      | (None, b') \<Rightarrow> add_all steps b')"

definition rollout :: "int \<Rightarrow> real \<Rightarrow> int \<Rightarrow> string \<Rightarrow> step list \<Rightarrow> error + buffer" where
  "rollout B g n s steps =
     (case init B g n s of
        Inl e \<Rightarrow> Inl e
      | Inr b \<Rightarrow> (case add_all steps b of (Some e, b') \<Rightarrow> Inl e | (None, b') \<Rightarrow> Inr b'))"

subsection \<open>Example buffers\<close>

text \<open>
  The scenario of the specification: buffer size 3, 2 steps, discount 0.9, rewards
  \<open>[1, 2, 3, 4]\<close>, the episode ending with the fourth step; the critic's values are
  \<open>[1, 2, 3, 4]\<close>. The buffer is filled to its capacity.
\<close>

definition ex_scenario :: buffer where
  "ex_scenario =
     \<lparr>setting = ''MC'', n_steps = 2, buffer_size = 3, gamma = 9 / 10,
      rewards = [1, 2, 3, 4], dones = [0, 0, 0, 1], KL_divergences = [0, 0, 0, 0],
      values_col = [1, 2, 3, 4], log_probs = [0, 0, 0, 0], entropies = [0, 0, 0, 0],
      advantages = None, returns = None, len = 4\<rparr>"

text \<open>A one-step buffer of size 2 whose episode ended with its first step.\<close>

definition ex_episode :: buffer where
  "ex_episode =
     \<lparr>setting = ''MC'', n_steps = 1, buffer_size = 2, gamma = 1 / 2,
      rewards = [1, 0], dones = [1, 0], KL_divergences = [0, 0],
      values_col = [0, 0], log_probs = [3, 0], entropies = [0, 0],
      advantages = None, returns = None, len = 1\<rparr>"

text \<open>A two-step buffer of size 2 whose episode ended with its second step, one slot unused.\<close>

definition ex_early :: buffer where
  "ex_early =
     \<lparr>setting = ''MC'', n_steps = 2, buffer_size = 2, gamma = 9 / 10,
      rewards = [1, 2, 0], dones = [0, 1, 0], KL_divergences = [0, 0, 0],
      values_col = [1, 2, 0], log_probs = [0, 0, 0], entropies = [0, 0, 0],
      advantages = None, returns = None, len = 2\<rparr>"

text \<open>A one-step buffer of size 2, filled to its capacity.\<close>

definition ex_one_step :: buffer where
  "ex_one_step =
     \<lparr>setting = ''MC'', n_steps = 1, buffer_size = 2, gamma = 1 / 2,
      rewards = [1, 2], dones = [0, 0], KL_divergences = [0, 0],
      values_col = [0, 0], log_probs = [0, 0], entropies = [0, 0],
      advantages = None, returns = None, len = 2\<rparr>"

text \<open>A three-step buffer of size 2 with discount \<open>g\<close>, filled to its capacity.\<close>

definition ex_lookahead :: "real \<Rightarrow> buffer" where
  "ex_lookahead g =
     \<lparr>setting = ''MC'', n_steps = 3, buffer_size = 2, gamma = g,
      rewards = [1, 2, 3, 4], dones = [0, 0, 0, 0], KL_divergences = [0, 0, 0, 0],
      values_col = [0, 0, 0, 0], log_probs = [0, 0, 0, 0], entropies = [0, 0, 0, 0],
      advantages = None, returns = None, len = 4\<rparr>"

section \<open>Properties of the return estimators\<close>

subsection \<open>The n-step return as a right fold\<close>

lemma n_step_return_foldr:
  "compute_n_step_return rs g = foldr (\<lambda>r acc. r + g * acc) rs 0"
  by (simp add: compute_n_step_return_def foldr_conv_fold)

lemma n_step_return_Nil: "compute_n_step_return [] g = 0"
  by (simp add: n_step_return_foldr)

lemma n_step_return_Cons:
  "compute_n_step_return (r # rs) g = r + g * compute_n_step_return rs g"
  by (simp add: n_step_return_foldr)

lemma n_step_return_snoc:
  "compute_n_step_return (rs @ [z]) g = compute_n_step_return rs g + g ^ length rs * z"
  by (induction rs) (simp_all add: n_step_return_Cons n_step_return_Nil algebra_simps)

text \<open>The discounted sum the specification writes for the direct n-step return.\<close>

lemma n_step_return_sum:
  "compute_n_step_return rs g = (\<Sum>k<length rs. g ^ k * rs ! k)"
proof (induction rs rule: rev_induct)
  case Nil
  show ?case by (simp add: n_step_return_Nil)
next
  case (snoc z rs)
  show ?case
    by (simp add: n_step_return_snoc snoc.IH nth_append)
qed

subsection \<open>Monte-Carlo returns\<close>

lemma MC_fold_fst:
  "fst (fold (\<lambda>reward (cum_return, MC_returns).
               (reward + g * cum_return, MC_returns @ [reward + g * cum_return])) ys (c, acc))
   = fold (\<lambda>reward n_step_return. reward + g * n_step_return) ys c"
  by (induction ys arbitrary: c acc) simp_all

lemma MC_returns_Nil: "compute_MC_returns [] g = []"
  by (simp add: compute_MC_returns_def)

lemma MC_returns_Cons:
  "compute_MC_returns (r # rs) g = (r + g * compute_n_step_return rs g) # compute_MC_returns rs g"
  by (simp add: compute_MC_returns_def compute_n_step_return_def split_beta MC_fold_fst)

lemma MC_returns_length: "length (compute_MC_returns rs g) = length rs"
  by (induction rs) (simp_all add: MC_returns_Nil MC_returns_Cons)

lemma MC_returns_nth:
  "i < length rs \<Longrightarrow> compute_MC_returns rs g ! i = compute_n_step_return (drop i rs) g"
proof (induction rs arbitrary: i)
  case Nil
  then show ?case by simp
next
  case (Cons r rs)
  show ?case
  proof (cases i)
    case 0
    then show ?thesis by (simp add: MC_returns_Cons n_step_return_Cons)
  next
    case (Suc j)
    with Cons show ?thesis by (simp add: MC_returns_Cons)
  qed
qed

text \<open>
  Claim C7. For a non-empty reward sequence of length \<open>L\<close> and any discount,
  \<^verbatim>\<open>compute_MC_returns\<close> yields a sequence \<open>G\<close> of length \<open>L\<close> whose last entry
  is the last reward and in which \<open>G[i] = rewards[i] + gamma * G[i+1]\<close> for every
  \<open>i < L - 1\<close>.
\<close>

theorem MC_returns_recurrence:
  assumes "rewards' \<noteq> []"
  shows "length (compute_MC_returns rewards' g) = length rewards'
       \<and> compute_MC_returns rewards' g ! (length rewards' - 1) = rewards' ! (length rewards' - 1)
       \<and> (\<forall>i. i < length rewards' - 1 \<longrightarrow>
            compute_MC_returns rewards' g ! i
              = rewards' ! i + g * compute_MC_returns rewards' g ! (i + 1))"
proof (intro conjI allI impI)
  show "length (compute_MC_returns rewards' g) = length rewards'"
    by (rule MC_returns_length)
next
  from assms have l: "length rewards' - 1 < length rewards'"
    by (cases rewards') simp_all
  then have "drop (length rewards' - 1) rewards' = [rewards' ! (length rewards' - 1)]"
    by (simp add: Cons_nth_drop_Suc [symmetric])
  then show "compute_MC_returns rewards' g ! (length rewards' - 1) = rewards' ! (length rewards' - 1)"
    using l by (simp add: MC_returns_nth n_step_return_Cons n_step_return_Nil)
next
  fix i assume i: "i < length rewards' - 1"
  then have "drop i rewards' = rewards' ! i # drop (Suc i) rewards'"
    by (simp add: Cons_nth_drop_Suc)
  with i show "compute_MC_returns rewards' g ! i
              = rewards' ! i + g * compute_MC_returns rewards' g ! (i + 1)"
    by (simp add: MC_returns_nth n_step_return_Cons)
qed

text \<open>The scenario of the specification: rewards \<open>[1, 1, 1]\<close> and discount \<open>1/2\<close>.\<close>

lemma MC_returns_scenario: "compute_MC_returns [1, 1, 1] (1 / 2) = [7 / 4, 3 / 2, 1]"
  by (simp add: compute_MC_returns_def)

theorem MC_returns_recurrence_witness:
  "[1, 1, 1 :: real] \<noteq> []
   \<and> length (compute_MC_returns [1, 1, 1] (1 / 2)) = 3
   \<and> compute_MC_returns [1, 1, 1] (1 / 2) ! 2 = 1
   \<and> compute_MC_returns [1, 1, 1] (1 / 2) ! 0 = 1 + 1 / 2 * compute_MC_returns [1, 1, 1] (1 / 2) ! 1"
  using MC_returns_recurrence [of "[1, 1, 1]" "1 / 2"] by (simp add: MC_returns_scenario)

subsection \<open>The incremental recurrence against the direct summation\<close>









text \<open>
  Claim C1, evaluated at discount 0, a discount the constructor accepts: for the
  rewards \<open>[1, 2, 3, 4]\<close>, a buffer size of 2 and 3 steps, the incremental
  recurrence computes \<open>(1 - 1) / 0\<close> and returns \<open>[1, nan]\<close>, while the direct
  summation returns \<open>[1, 2]\<close>: the two sequences differ at index 1.
\<close>

theorem compute_returns_gamma_0:
  "compute_returns [1, 2, 3, 4] 0 2 3 = Inr [Finite 1, NonFinite]
   \<and> compute_all_n_step_returns [1, 2, 3, 4] 0 2 3 = [1, 2]"
  by (simp add: compute_returns_def compute_all_n_step_returns_def slice_def
      compute_n_step_return_def compute_next_return_def upt_rec numeral_2_eq_2)

section \<open>Construction and the fill cycle\<close>

subsection \<open>The constructor\<close>

text \<open>
  Claim C10. Construction fails with a ValueError exactly when \<open>buffer_size < 1\<close>,
  or the discount lies outside \<open>[0, 1]\<close>, or \<open>n_steps < 1\<close>; so it fails for
  \<open>buffer_size = 0\<close>, for \<open>gamma = 1.5\<close> and for \<open>n_steps = 0\<close>. For all other
  parameters it succeeds and yields the empty buffer: every column holds
  \<open>buffer_size + n_steps - 1\<close> zeros, no advantages, no returns, cursor 0.
\<close>

theorem init_validation:
  "(is_InvalidConfig (init B g n s) \<longleftrightarrow> (B < 1 \<or> g < 0 \<or> 1 < g \<or> n < 1))
   \<and> is_InvalidConfig (init 0 g n s)
   \<and> is_InvalidConfig (init B (3 / 2) n s)
   \<and> is_InvalidConfig (init B g 0 s)
   \<and> (\<not> (B < 1 \<or> g < 0 \<or> 1 < g \<or> n < 1) \<longrightarrow>
        init B g n s =
          Inr \<lparr>setting = s, n_steps = nat n, buffer_size = nat B, gamma = g,
               rewards = replicate (nat (B + n - 1)) 0,
               dones = replicate (nat (B + n - 1)) 0,
               KL_divergences = replicate (nat (B + n - 1)) 0,
               values_col = replicate (nat (B + n - 1)) 0,
               log_probs = replicate (nat (B + n - 1)) 0,
               entropies = replicate (nat (B + n - 1)) 0,
               advantages = None, returns = None, len = 0\<rparr>)"
  by (auto simp: init_def is_InvalidConfig_def reset_def zeros_def Let_def)

theorem init_validation_witness:
  "\<not> is_InvalidConfig (init 3 (9 / 10) 2 ''MC'')
   \<and> init 3 (9 / 10) 2 ''MC'' =
          Inr \<lparr>setting = ''MC'', n_steps = 2, buffer_size = 3, gamma = 9 / 10,
               rewards = [0, 0, 0, 0],
               dones = [0, 0, 0, 0],
               KL_divergences = [0, 0, 0, 0],
               values_col = [0, 0, 0, 0],
               log_probs = [0, 0, 0, 0],
               entropies = [0, 0, 0, 0],
               advantages = None, returns = None, len = 0\<rparr>
   \<and> is_InvalidConfig (init 0 (9 / 10) 2 ''MC'')"
  using init_validation [of 3 "9 / 10" 2 "''MC''"] init_validation [of 0 "9 / 10" 2 "''MC''"]
  by (simp add: eval_nat_numeral is_InvalidConfig_def)

subsection \<open>The example buffers are built through the interface\<close>

lemmas build_simps =
  rollout_def init_def reset_def zeros_def add_def full_def done_prop_def py_max_def
  setitem_def Let_def eval_nat_numeral

lemma ex_scenario_built:
  "rollout 3 (9 / 10) 2 ''MC''
     [(1, False, 1, 0, 0, 0), (2, False, 2, 0, 0, 0), (3, False, 3, 0, 0, 0), (4, True, 4, 0, 0, 0)]
   = Inr ex_scenario"
  by (simp add: build_simps ex_scenario_def)

lemma ex_episode_built:
  "rollout 2 (1 / 2) 1 ''MC'' [(1, True, 0, 3, 0, 0)] = Inr ex_episode"
  by (simp add: build_simps ex_episode_def)

lemma ex_early_built:
  "rollout 2 (9 / 10) 2 ''MC'' [(1, False, 1, 0, 0, 0), (2, True, 2, 0, 0, 0)] = Inr ex_early"
  by (simp add: build_simps ex_early_def)

lemma ex_one_step_built:
  "rollout 2 (1 / 2) 1 ''MC'' [(1, False, 0, 0, 0, 0), (2, False, 0, 0, 0, 0)] = Inr ex_one_step"
  by (simp add: build_simps ex_one_step_def)

lemma ex_lookahead_built:
  "0 \<le> g \<Longrightarrow> g \<le> 1 \<Longrightarrow>
   rollout 2 g 3 ''MC''
     [(1, False, 0, 0, 0, 0), (2, False, 0, 0, 0, 0), (3, False, 0, 0, 0, 0), (4, False, 0, 0, 0, 0)]
   = Inr (ex_lookahead g)"
  by (simp add: build_simps ex_lookahead_def)

lemma reachable_add_all: "reachable b \<Longrightarrow> reachable (snd (add_all steps b))"
proof (induction steps arbitrary: b)
  case Nil
  then show ?case by simp
next
  case (Cons st steps)
  obtain r d v lp e kl where st: "st = (r, d, v, lp, e, kl)" by (cases st)
  have "reachable (snd (add r d v lp e kl b))" using Cons.prems by (rule reach_add)
  then show ?case
    using Cons.IH [of "snd (add r d v lp e kl b)"]
    by (cases "add r d v lp e kl b") (auto simp: st split: option.splits)
qed

lemma reachable_rollout:
  assumes "rollout B g n s steps = Inr b"
  shows "reachable b"
proof -
  from assms obtain b0 where b0: "init B g n s = Inr b0"
    by (auto simp: rollout_def split: sum.splits)
  then have "reachable b0" by (rule reach_init)
  then have "reachable (snd (add_all steps b0))" by (rule reachable_add_all)
  moreover have "snd (add_all steps b0) = b"
    using assms b0 by (auto simp: rollout_def split: prod.splits option.splits)
  ultimately show ?thesis by simp
qed

subsection \<open>Adding to a full buffer\<close>

text \<open>
  Claim C8. In every buffer state in which \<^verbatim>\<open>full\<close> holds, a call to \<^verbatim>\<open>add\<close>,
  whatever its arguments, raises the ValueError that reports a full buffer and leaves
  the whole state, columns and cursor, as it was.
\<close>

theorem add_full:
  assumes "full b = Inr True"
  shows "add reward done value log_prob entropy KL_divergence b
         = (Some (ValueError ''Buffer is already full, cannot add anymore''), b)"
  using assms by (simp add: add_def)

theorem add_full_witness:
  "full ex_scenario = Inr True
   \<and> add 5 False 0 0 0 0 ex_scenario
     = (Some (ValueError ''Buffer is already full, cannot add anymore''), ex_scenario)"
  using add_full [of ex_scenario 5 False 0 0 0 0]
  by (simp add: full_def ex_scenario_def)

subsection \<open>Fullness in reachable states\<close>

lemma full_False_len:
  "full b = Inr False \<Longrightarrow> int (len b) < int (buffer_size b) + int (n_steps b) - 1"
  by (auto simp: full_def split: if_splits)

lemma add_frame:
  "n_steps (snd (add r d v lp e kl b)) = n_steps b"
  "buffer_size (snd (add r d v lp e kl b)) = buffer_size b"
  by (auto simp: add_def setitem_def Let_def split: sum.splits bool.splits)

lemma add_dones:
  "dones (snd (add r d v lp e kl b)) = dones b
   \<or> dones (snd (add r d v lp e kl b)) = (dones b)[len b := (if d then 1 else 0)]"
  by (auto simp: add_def setitem_def Let_def split: sum.splits bool.splits)

lemma add_len:
  "len (snd (add r d v lp e kl b)) = len b
   \<or> (full b = Inr False \<and> len (snd (add r d v lp e kl b)) = len b + 1)"
  by (auto simp: add_def setitem_def Let_def split: sum.splits bool.splits)

lemma list_all_update:
  "list_all P xs \<Longrightarrow> P v \<Longrightarrow> list_all P (xs[i := v])"
  by (auto simp: list_all_iff dest: set_update_subset_insert [THEN subsetD])

lemma flags_ok_add: "flags_ok b \<Longrightarrow> flags_ok (snd (add r d v lp e kl b))"
  using add_dones [of r d v lp e kl b] add_len [of r d v lp e kl b] full_False_len [of b]
  by (auto simp: flags_ok_def add_frame list_all_update)

lemma flags_ok_reset: "flags_ok b \<Longrightarrow> flags_ok (reset b)"
  by (simp add: flags_ok_def reset_def zeros_def Let_def list_all_iff)

lemma flags_ok_init: "init B g n s = Inr b \<Longrightarrow> flags_ok b"
  by (auto simp: init_def flags_ok_def reset_def zeros_def Let_def list_all_iff split: if_splits)

lemma flags_ok_clean: "flags_ok b \<Longrightarrow> flags_ok (snd (clean b))"
  by (auto simp: flags_ok_def clean_def zeros_def Let_def list_all_iff split: sum.splits)

lemma flags_ok_clear: "flags_ok b \<Longrightarrow> flags_ok (clear b)"
  by (auto simp: flags_ok_def clear_def slice_from_def list_all_iff dest: in_set_dropD)

lemma flags_ok_update: "flags_ok b \<Longrightarrow> flags_ok (snd (update_advantages lv fast MC b))"
  by (auto simp: flags_ok_def update_advantages_def Let_def split: sum.splits)

lemma reachable_flags_ok: "reachable b \<Longrightarrow> flags_ok b"
  by (induction rule: reachable.induct)
     (simp_all add: flags_ok_init flags_ok_add flags_ok_clean flags_ok_clear
        flags_ok_update flags_ok_reset)

lemma py_max_Max: "xs \<noteq> [] \<Longrightarrow> py_max xs = Inr (Max (set xs))"
  by (cases xs) (simp_all add: py_max_def Max.set_eq_fold [symmetric])

lemma Max_flag:
  assumes "xs \<noteq> []" "list_all (\<lambda>x. x = 0 \<or> x = (1::real)) xs"
  shows "Max (set xs) = 1 \<longleftrightarrow> (\<exists>i<length xs. xs ! i = 1)"
proof
  assume "Max (set xs) = 1"
  moreover have "Max (set xs) \<in> set xs" using assms(1) by (intro Max_in) simp_all
  ultimately have "1 \<in> set xs" by simp
  then show "\<exists>i<length xs. xs ! i = 1" by (simp add: in_set_conv_nth)
next
  assume "\<exists>i<length xs. xs ! i = 1"
  then have "1 \<in> set xs" by (auto simp: in_set_conv_nth)
  moreover have "\<forall>x\<in>set xs. x \<le> 1" using assms(2) by (auto simp: list_all_iff)
  ultimately show "Max (set xs) = 1" by (intro Max_eqI) simp_all
qed

text \<open>
  Wherever \<^verbatim>\<open>full\<close> gets to an answer in a reachable state, that is when the column
  of done flags is not empty or the cursor is at the capacity, the answer is true if
  and only if the cursor equals \<open>buffer_size + n_steps - 1\<close> or some stored done
  flag is 1.
\<close>

lemma full_reachable:
  assumes "reachable b"
    and "dones b \<noteq> [] \<or> int (len b) = int (buffer_size b) + int (n_steps b) - 1"
  shows "full b = Inr (int (len b) = int (buffer_size b) + int (n_steps b) - 1
                       \<or> (\<exists>i<length (dones b). dones b ! i = 1))"
proof (cases "int (len b) = int (buffer_size b) + int (n_steps b) - 1")
  case True
  then show ?thesis by (simp add: full_def)
next
  case False
  with assms(2) have ne: "dones b \<noteq> []" by simp
  from assms(1) have ok: "flags_ok b" by (rule reachable_flags_ok)
  then have le: "int (len b) \<le> int (buffer_size b) + int (n_steps b) - 1"
    and fl: "list_all (\<lambda>x. x = 0 \<or> x = 1) (dones b)"
    by (simp_all add: flags_ok_def)
  have "done_prop b = Inr (\<exists>i<length (dones b). dones b ! i = 1)"
    using ne fl by (simp add: done_prop_def py_max_Max Max_flag)
  then show ?thesis using le by (auto simp: full_def)
qed

text \<open>
  Claim C9, evaluated in a reachable state: a one-step buffer of size 2 takes one step
  that ends the episode and is then cleared. \<^verbatim>\<open>clear\<close> leaves the columns empty and
  the cursor at 1, below the capacity 2; no done flag is stored any more, so the claim
  has \<^verbatim>\<open>full\<close> return false. \<^verbatim>\<open>full\<close> evaluates \<^verbatim>\<open>max(self.dones)\<close> on the
  empty array and raises ValueError instead.
\<close>

theorem full_after_clear:
  "rollout 2 (1 / 2) 1 ''MC'' [(1, True, 0, 3, 0, 0)] = Inr ex_episode
   \<and> reachable (clear ex_episode)
   \<and> full (clear ex_episode) = Inl (ValueError ''max() arg is an empty sequence'')
   \<and> dones (clear ex_episode) = []
   \<and> len (clear ex_episode) = 1
   \<and> buffer_size (clear ex_episode) + n_steps (clear ex_episode) - 1 = 2"
proof -
  have "reachable (clear ex_episode)"
    by (rule reach_clear [OF reachable_rollout [OF ex_episode_built]])
  then show ?thesis
    by (simp add: ex_episode_built)
       (simp add: clear_def full_def done_prop_def py_max_def slice_from_def slice_index_def
          ex_episode_def)
qed

section \<open>Trimming the buffer\<close>

lemma slice_from_nat: "slice_from xs (int k) = drop k xs"
  by (simp add: slice_from_def slice_index_def min_def)

lemma slice_to_nat: "slice_to xs (int k) = take k xs"
  by (simp add: slice_to_def slice_index_def min_def)

text \<open>The reward column that \<^verbatim>\<open>clean\<close> builds: the old tail, then zeros.\<close>

lemma clean_rewards:
  assumes "2 \<le> n \<or> (n = 1 \<and> B = 1)" "length rs = B + n - 1"
  shows "assign_prefix (zeros (nat (int B + int n - 1))) (int n - 1) (slice_from rs (- int n + 1))
         = Inr (drop B rs @ zeros B)"
proof (cases "2 \<le> n")
  case True
  have c: "nat (int B + int n - 1) = B + n - 1" using True by simp
  have s: "slice_from rs (- int n + 1) = drop B rs"
    using True assms(2) by (simp add: slice_from_def slice_index_def)
  have t: "slice_index (int n - 1) (length (zeros (B + n - 1))) = n - 1"
    using True by (simp add: slice_index_def zeros_def)
  have l: "length (drop B rs) = n - 1" using assms(2) by simp
  have d: "drop (n - 1) (zeros (B + n - 1)) = zeros B"
    using True by (simp add: zeros_def)
  show ?thesis
    unfolding c s assign_prefix_def Let_def t l d by simp
next
  case False
  with assms have n: "n = 1" and B: "B = 1" and l: "length rs = 1" by simp_all
  show ?thesis
    unfolding n B using l
    by (simp add: assign_prefix_def slice_from_def slice_index_def zeros_def)
qed

text \<open>
  What \<^verbatim>\<open>clean\<close> does when it returns: on a reward column of the capacity length,
  with at least 2 steps (or one step and buffer size 1), the first \<open>n_steps - 1\<close>
  reward slots hold the previously last \<open>n_steps - 1\<close> rewards, every other entry of
  every column is zero, every column has the capacity length, and the cursor is
  \<open>n_steps - 1\<close>. With one step and a larger buffer \<^verbatim>\<open>clean\<close> raises, see below.
\<close>

lemma clean_trims:
  assumes "2 \<le> n_steps b \<or> (n_steps b = 1 \<and> buffer_size b = 1)"
    and "length (rewards b) = buffer_size b + n_steps b - 1"
  shows "clean b =
           (None, b\<lparr>rewards := drop (buffer_size b) (rewards b) @ zeros (buffer_size b),
                    dones := zeros (buffer_size b + n_steps b - 1),
                    KL_divergences := zeros (buffer_size b + n_steps b - 1),
                    values_col := zeros (buffer_size b + n_steps b - 1),
                    log_probs := zeros (buffer_size b + n_steps b - 1),
                    entropies := zeros (buffer_size b + n_steps b - 1),
                    advantages := None, returns := None, len := n_steps b - 1\<rparr>)"
proof -
  have n: "1 \<le> n_steps b" using assms(1) by auto
  have c: "nat (int (buffer_size b) + int (n_steps b) - 1) = buffer_size b + n_steps b - 1"
    using n by simp
  have l: "nat (int (n_steps b) - 1) = n_steps b - 1" by simp
  show ?thesis
    unfolding clean_def Let_def
    using clean_rewards [OF assms] c l by simp
qed

text \<open>
  After \<^verbatim>\<open>clear\<close> on a buffer that was full by its length, the cursor is still at the
  capacity: \<^verbatim>\<open>full\<close> stays true and no \<^verbatim>\<open>add\<close> can succeed.
\<close>

lemma add_after_clear:
  assumes "int (len b) \<ge> int (buffer_size b) + int (n_steps b) - 1"
  shows "add r d v lp e kl (clear b)
         = (Some (ValueError ''Buffer is already full, cannot add anymore''), clear b)"
proof -
  have "full (clear b) = Inr True"
    using assms by (simp add: full_def clear_def)
  then show ?thesis by (simp add: add_def)
qed

text \<open>
  Claim C5, evaluated on two buffers built through the interface. On the scenario
  buffer (capacity 4, 2 steps) \<^verbatim>\<open>clean\<close> does what the claim says, and \<^verbatim>\<open>clear\<close>
  does not: it cuts every column to length 1 instead of keeping length 4, keeps the
  done flag 1 and the value 4 instead of zeroing them, and leaves the cursor at 4
  instead of 1, so that the next \<^verbatim>\<open>add\<close> is refused. On the one-step buffer of size 2
  \<^verbatim>\<open>clean\<close> raises: \<^verbatim>\<open>self.rewards[-self.n_steps + 1 :]\<close> is the whole column
  and cannot be stored into the empty slice \<^verbatim>\<open>self.rewards[:0]\<close>; the rewards are
  zeroed and nothing else is reset.
\<close>

theorem clean_clear_diverge:
  "rollout 3 (9 / 10) 2 ''MC''
     [(1, False, 1, 0, 0, 0), (2, False, 2, 0, 0, 0), (3, False, 3, 0, 0, 0), (4, True, 4, 0, 0, 0)]
     = Inr ex_scenario
   \<and> clean ex_scenario
     = (None, ex_scenario\<lparr>rewards := [4, 0, 0, 0], dones := [0, 0, 0, 0],
                          KL_divergences := [0, 0, 0, 0], values_col := [0, 0, 0, 0],
                          log_probs := [0, 0, 0, 0], entropies := [0, 0, 0, 0],
                          advantages := None, returns := None, len := 1\<rparr>)
   \<and> clear ex_scenario
     = ex_scenario\<lparr>rewards := [4], dones := [1], KL_divergences := [0],
                   values_col := [4], log_probs := [0], entropies := [0]\<rparr>
   \<and> len (clear ex_scenario) = 4
   \<and> add 5 False 0 0 0 0 (clear ex_scenario)
     = (Some (ValueError ''Buffer is already full, cannot add anymore''), clear ex_scenario)
   \<and> rollout 2 (1 / 2) 1 ''MC'' [(1, False, 0, 0, 0, 0), (2, False, 0, 0, 0, 0)]
     = Inr ex_one_step
   \<and> clean ex_one_step
     = (Some (ValueError ''could not broadcast input array''), ex_one_step\<lparr>rewards := [0, 0]\<rparr>)"
proof -
  have a: "clean ex_scenario
     = (None, ex_scenario\<lparr>rewards := [4, 0, 0, 0], dones := [0, 0, 0, 0],
                          KL_divergences := [0, 0, 0, 0], values_col := [0, 0, 0, 0],
                          log_probs := [0, 0, 0, 0], entropies := [0, 0, 0, 0],
                          advantages := None, returns := None, len := 1\<rparr>)"
    by (simp add: clean_def assign_prefix_def zeros_def slice_from_def slice_index_def
        ex_scenario_def eval_nat_numeral)
  have b: "clear ex_scenario
     = ex_scenario\<lparr>rewards := [4], dones := [1], KL_divergences := [0],
                   values_col := [4], log_probs := [0], entropies := [0]\<rparr>"
    by (simp add: clear_def slice_from_def slice_index_def ex_scenario_def)
  have c: "len (clear ex_scenario) = 4"
    by (simp add: clear_def ex_scenario_def)
  have d: "add 5 False 0 0 0 0 (clear ex_scenario)
     = (Some (ValueError ''Buffer is already full, cannot add anymore''), clear ex_scenario)"
    by (rule add_after_clear) (simp add: ex_scenario_def)
  have e: "clean ex_one_step
     = (Some (ValueError ''could not broadcast input array''), ex_one_step\<lparr>rewards := [0, 0]\<rparr>)"
    by (simp add: clean_def assign_prefix_def zeros_def slice_from_def slice_index_def
        ex_one_step_def eval_nat_numeral)
  show ?thesis
    using a b c d e by (simp only: ex_scenario_built ex_one_step_built simp_thms)
qed

section \<open>Computing the advantages\<close>

lemmas update_simps =
  update_advantages_def compute_returns_def compute_all_n_step_returns_def
  compute_MC_returns_def compute_n_step_return_def compute_next_return_def
  compute_advantages_def compute_MC_advantages_def advantage_at_def torch_sub_def fsub_def
  slice_def slice_to_def slice_from_def slice_index_def Let_def eval_nat_numeral

subsection \<open>What a call changes\<close>

text \<open>
  Claim C6, as stated, in Monte-Carlo mode: on the one-step buffer whose episode ended
  after one step, the call succeeds and cuts \<^verbatim>\<open>log_probs\<close> from \<open>[3, 0]\<close> to
  \<open>[3]\<close>.
\<close>

theorem update_advantages_frame_counterexample:
  "update_advantages None True True ex_episode
     = (None, ex_episode\<lparr>returns := Some [Finite 1, Finite 0],
                         advantages := Some [Finite 1], log_probs := [3]\<rparr>)
   \<and> log_probs ex_episode = [3, 0]"
  by (simp add: update_simps ex_episode_def)

text \<open>
  Claim C6, amended. Every call to \<^verbatim>\<open>update_advantages\<close>, successful or not,
  leaves the rewards, dones, values, entropies and KL_divergences columns unchanged,
  element for element and in length, and the cursor and the configuration too. A
  successful call in Monte-Carlo mode cuts \<^verbatim>\<open>log_probs\<close> to its first \<open>len\<close>
  entries, which are unchanged; every other call leaves \<^verbatim>\<open>log_probs\<close> unchanged as
  well.
\<close>

theorem update_advantages_frame:
  assumes "update_advantages last_val fast MC b = (e, b')"
  shows "rewards b' = rewards b \<and> dones b' = dones b \<and> values_col b' = values_col b
       \<and> entropies b' = entropies b \<and> KL_divergences b' = KL_divergences b
       \<and> log_probs b' = (if MC \<and> e = None then take (len b) (log_probs b) else log_probs b)
       \<and> len b' = len b \<and> n_steps b' = n_steps b \<and> buffer_size b' = buffer_size b
       \<and> gamma b' = gamma b \<and> setting b' = setting b"
  using assms
  by (auto simp: update_advantages_def Let_def slice_to_nat split: sum.splits if_splits)

theorem update_advantages_frame_witness:
  "update_advantages (Some 10) True False ex_scenario
     = (None, ex_scenario\<lparr>returns := Some (map Finite [14 / 5, 47 / 10, 33 / 5]),
                          advantages := Some (map Finite [423 / 100, 297 / 50, 117 / 10])\<rparr>)
   \<and> log_probs (ex_scenario\<lparr>returns := Some (map Finite [14 / 5, 47 / 10, 33 / 5]),
                            advantages := Some (map Finite [423 / 100, 297 / 50, 117 / 10])\<rparr>)
     = log_probs ex_scenario
   \<and> rewards (ex_scenario\<lparr>returns := Some (map Finite [14 / 5, 47 / 10, 33 / 5]),
                          advantages := Some (map Finite [423 / 100, 297 / 50, 117 / 10])\<rparr>)
     = rewards ex_scenario"
proof -
  have u: "update_advantages (Some 10) True False ex_scenario
     = (None, ex_scenario\<lparr>returns := Some (map Finite [14 / 5, 47 / 10, 33 / 5]),
                          advantages := Some (map Finite [423 / 100, 297 / 50, 117 / 10])\<rparr>)"
    by (simp add: update_simps ex_scenario_def)
  show ?thesis
    using update_advantages_frame [OF u] u by simp
qed

subsection \<open>The n-step advantages\<close>








subsection \<open>Monte-Carlo mode on a buffer with more than two steps\<close>

text \<open>
  Claim C2, evaluated on the three-step buffer of size 2 with discount \<open>1/2\<close> and
  rewards \<open>[1, 2, 3, 4]\<close>, built through the interface: called in Monte-Carlo mode
  with the default \<^verbatim>\<open>fast = True\<close>, \<^verbatim>\<open>update_advantages\<close> stores the two returns of
  the incremental recurrence, not the four Monte-Carlo returns, and then fails to
  subtract the four values from them.
\<close>

theorem update_advantages_MC_fast:
  "rollout 2 (1 / 2) 3 ''MC''
     [(1, False, 0, 0, 0, 0), (2, False, 0, 0, 0, 0), (3, False, 0, 0, 0, 0), (4, False, 0, 0, 0, 0)]
     = Inr (ex_lookahead (1 / 2))
   \<and> update_advantages None True True (ex_lookahead (1 / 2))
     = (Some RuntimeError,
        ex_lookahead (1 / 2)\<lparr>returns := Some [Finite (11 / 4), Finite (9 / 2)]\<rparr>)
   \<and> compute_MC_returns (rewards (ex_lookahead (1 / 2))) (gamma (ex_lookahead (1 / 2)))
     = [13 / 4, 9 / 2, 5, 4]"
  by (simp add: ex_lookahead_built) (simp add: update_simps ex_lookahead_def)

subsection \<open>A zero discount\<close>

text \<open>
  Claim C3, evaluated on the three-step buffer of size 2 with discount 0 and rewards
  \<open>[1, 2, 3, 4]\<close>, built through the interface: in n-step mode with the default
  \<^verbatim>\<open>fast = True\<close>, \<^verbatim>\<open>update_advantages\<close> divides by the discount, raises nothing,
  and stores the returns \<open>[1, nan]\<close> and the advantages \<open>[1, nan]\<close>; with
  \<^verbatim>\<open>fast = False\<close> the same buffer gets the one-step returns \<open>[1, 2]\<close>.
\<close>

theorem update_advantages_gamma_0:
  "rollout 2 0 3 ''MC''
     [(1, False, 0, 0, 0, 0), (2, False, 0, 0, 0, 0), (3, False, 0, 0, 0, 0), (4, False, 0, 0, 0, 0)]
     = Inr (ex_lookahead 0)
   \<and> update_advantages (Some 0) True False (ex_lookahead 0)
     = (None, ex_lookahead 0\<lparr>returns := Some [Finite 1, NonFinite],
                             advantages := Some [Finite 1, NonFinite]\<rparr>)
   \<and> update_advantages (Some 0) False False (ex_lookahead 0)
     = (None, ex_lookahead 0\<lparr>returns := Some [Finite 1, Finite 2],
                             advantages := Some [Finite 1, Finite 2]\<rparr>)"
  by (simp add: ex_lookahead_built) (simp add: update_simps ex_lookahead_def)

end
